theory Spec2Isabelle
  imports Main
begin

section \<open>JavaScript values\<close>

text \<open>
  The server is a Node.js/Express program. Its values are modelled as follows.
  A string is a \<open>char list\<close> holding the UTF-8 bytes of the source text, so the accented
  letters of the Portuguese messages are two bytes each. A number is an exact integer or
  \<open>NaN\<close>: the only numbers the handlers compute come from \<open>parseInt\<close>, a subtraction of
  one and a product, and the model agrees with IEEE doubles as long as the magnitudes stay
  below \<open>2^53\<close>. An object is the list of its own enumerable properties in insertion
  order, which is the order \<open>Object.entries\<close> walks.
\<close>

datatype jsnum = Num int | NaN

datatype jsval =
    JUndefined
  | JNull
  | JBool bool
  | JNum jsnum
  | JStr string
  | JArr "jsval list"
  | JObj "(string \<times> jsval) list"

type_synonym row = "(string \<times> jsval) list"

text \<open>Property read \<open>obj.k\<close>: a property the object does not have reads as \<open>undefined\<close>.\<close>

definition get_prop :: "(string \<times> jsval) list \<Rightarrow> string \<Rightarrow> jsval" where
  "get_prop obj k = (case map_of obj k of None \<Rightarrow> JUndefined | Some v \<Rightarrow> v)"

text \<open>
  Every route callback is an arrow function at the top level of a CommonJS module, so
  \<open>this\<close> inside it is the module's \<open>module.exports\<close>. The file exports nothing: the
  object is empty.
\<close>

definition module_this :: "(string \<times> jsval) list" where
  "module_this = []"

text \<open>The test \<open>!v\<close> of JavaScript is \<open>\<not> truthy v\<close>.\<close>

fun truthy :: "jsval \<Rightarrow> bool" where
  "truthy JUndefined = False"
| "truthy JNull = False"
| "truthy (JBool b) = b"
| "truthy (JNum NaN) = False"
| "truthy (JNum (Num i)) = (i \<noteq> 0)"
| "truthy (JStr s) = (s \<noteq> [])"
| "truthy (JArr xs) = True"
| "truthy (JObj kvs) = True"

text \<open>\<open>Array.prototype.join()\<close> with its default separator, the comma.\<close>

fun join :: "string list \<Rightarrow> string" where
  "join [] = []"
| "join [x] = x"
| "join (x # y # zs) = x @ '','' @ join (y # zs)"

function show_nat :: "nat \<Rightarrow> string" where
  "show_nat n =
     (if n < 10 then [char_of (48 + n)]
      else show_nat (n div 10) @ [char_of (48 + n mod 10)])"
  by pat_completeness auto
termination
  by (relation "measure id") auto

declare show_nat.simps [simp del]

definition show_int :: "int \<Rightarrow> string" where
  "show_int i = (if i < 0 then ''-'' @ show_nat (nat (- i)) else show_nat (nat i))"

text \<open>
  The string a value contributes to a template literal \<open>`... ${v} ...`\<close>
  (the \<open>ToString\<close> conversion). An array joins its elements with commas, \<open>null\<close> and
  \<open>undefined\<close> elements contributing nothing; a plain object is \<open>[object Object]\<close>.
  In JavaScript the conversion throws for an object that has a property of its own named
  \<open>toString\<close>; request bodies with such a value are outside the model.
\<close>

primrec to_str :: "jsval \<Rightarrow> string" where
  "to_str JUndefined = ''undefined''"
| "to_str JNull = ''null''"
| "to_str (JBool b) = (if b then ''true'' else ''false'')"
| "to_str (JNum n) = (case n of NaN \<Rightarrow> ''NaN'' | Num i \<Rightarrow> show_int i)"
| "to_str (JStr s) = s"
| "to_str (JArr xs) =
     join (map (\<lambda>(v, s). if v = JUndefined \<or> v = JNull then [] else s)
            (zip xs (map to_str xs)))"
| "to_str (JObj kvs) = ''[object Object]''"

text \<open>
  What \<open>res.json(v)\<close> puts on the wire, read back as a value: \<open>JSON.stringify\<close> leaves
  out every property whose value is \<open>undefined\<close>, writes \<open>null\<close> for \<open>undefined\<close> array
  elements and for \<open>NaN\<close>, and yields nothing at all for a bare \<open>undefined\<close>.
\<close>

primrec stringify :: "jsval \<Rightarrow> jsval option" where
  "stringify JUndefined = None"
| "stringify JNull = Some JNull"
| "stringify (JBool b) = Some (JBool b)"
| "stringify (JNum n) = Some (case n of Num i \<Rightarrow> JNum (Num i) | NaN \<Rightarrow> JNull)"
| "stringify (JStr s) = Some (JStr s)"
| "stringify (JArr xs) =
     Some (JArr (map (\<lambda>r. case r of None \<Rightarrow> JNull | Some v \<Rightarrow> v) (map stringify xs)))"
| "stringify (JObj kvs) =
     Some (JObj (List.map_filter (\<lambda>(k, r). map_option (Pair k) r)
                   (map (map_prod id stringify) kvs)))"

subsection \<open>String operations used by the handlers\<close>

fun starts_with :: "string \<Rightarrow> string \<Rightarrow> bool" where
  "starts_with s [] = True"
| "starts_with [] (p # ps) = False"
| "starts_with (c # cs) (p # ps) = (c = p \<and> starts_with cs ps)"

text \<open>\<open>String.prototype.includes\<close>.\<close>

fun str_includes :: "string \<Rightarrow> string \<Rightarrow> bool" where
  "str_includes [] sub = (sub = [])"
| "str_includes (c # cs) sub = (starts_with (c # cs) sub \<or> str_includes cs sub)"

text \<open>
  \<open>String.prototype.replace\<close> with a string pattern: only the first occurrence is
  replaced. The replacement used by the handlers has no \<open>$\<close>, so it is inserted as it is.
\<close>

fun str_replace :: "string \<Rightarrow> string \<Rightarrow> string \<Rightarrow> string" where
  "str_replace [] pat rep = (if pat = [] then rep else [])"
| "str_replace (c # cs) pat rep =
     (if starts_with (c # cs) pat then rep @ drop (length pat) (c # cs)
      else c # str_replace cs pat rep)"

text \<open>
  \<open>parseInt(s, 10)\<close>: leading white space is skipped, one sign is read, then the longest
  run of decimal digits; no digit at all gives \<open>NaN\<close>. Whatever follows the digits is
  ignored. Of the white space JavaScript skips, the model knows the ASCII characters.
\<close>

definition is_space :: "char \<Rightarrow> bool" where
  "is_space c = (c \<in> set [CHR 0x09, CHR 0x0A, CHR 0x0B, CHR 0x0C, CHR 0x0D, CHR 0x20])"

definition is_digit :: "char \<Rightarrow> bool" where
  "is_digit c = (48 \<le> (of_char c :: nat) \<and> (of_char c :: nat) \<le> 57)"

definition digits_value :: "string \<Rightarrow> nat" where
  "digits_value ds = foldl (\<lambda>a c. 10 * a + ((of_char c :: nat) - 48)) 0 ds"

definition parseInt :: "string \<Rightarrow> jsnum" where
  "parseInt s =
     (let s1 = dropWhile is_space s;
          neg = (s1 \<noteq> [] \<and> hd s1 = CHR ''-'');
          s2 = (if s1 \<noteq> [] \<and> (hd s1 = CHR ''-'' \<or> hd s1 = CHR ''+'') then tl s1 else s1);
          ds = takeWhile is_digit s2
      in if ds = [] then NaN
         else Num ((if neg then - 1 else 1) * int (digits_value ds)))"

text \<open>Arithmetic on numbers: \<open>NaN\<close> is absorbing.\<close>

fun num_sub :: "jsnum \<Rightarrow> jsnum \<Rightarrow> jsnum" where
  "num_sub (Num a) (Num b) = Num (a - b)"
| "num_sub _ _ = NaN"

fun num_mul :: "jsnum \<Rightarrow> jsnum \<Rightarrow> jsnum" where
  "num_mul (Num a) (Num b) = Num (a * b)"
| "num_mul _ _ = NaN"

section \<open>Configuration and the world outside the program\<close>

record config =
  port :: nat
  dbPath :: string
  timeout :: nat
  nodeEnv :: string

text \<open>The configuration when no environment variable is set; the timeout is in milliseconds.\<close>

definition default_config :: config where
  "default_config =
     \<lparr>port = 4000, dbPath = ''database/database.db'', timeout = 3 * 60 * 1000,
      nodeEnv = ''development''\<rparr>"

text \<open>
  \<open>new sqlite3.Database(...)\<close> returns a handle at once and reports later, through its
  callback, whether the file could be opened. The handle records that report.
\<close>

datatype handle = Handle (established: bool)

text \<open>What the callback of \<open>db.all\<close> receives: an error, or the rows.\<close>

datatype reply = Failure string | Rows "row list"

text \<open>
  The sqlite3 driver and the Node.js runtime are not part of the repository: they are a
  parameter of the model. \<open>'b\<close> is the state of the database behind the driver.
  \<^item> \<open>open_db path b\<close> is the outcome of opening the file: the message of the error
    handed to the callback, if any, and the database afterwards;
  \<^item> \<open>db_all h sql params b\<close> runs one statement: how many milliseconds pass before the
    callback is called, what the callback receives, and the database afterwards;
  \<^item> \<open>stack_of m\<close> is the stack text the runtime attaches to an \<open>Error\<close> with message \<open>m\<close>.
\<close>

record 'b env =
  open_db :: "string \<Rightarrow> 'b \<Rightarrow> string option \<times> 'b"
  db_all :: "handle \<Rightarrow> string \<Rightarrow> jsval list \<Rightarrow> 'b \<Rightarrow> (nat \<times> reply) \<times> 'b"
  stack_of :: "string \<Rightarrow> string"

datatype js_error = Error (message: string)

datatype 'a promise = Resolve 'a | Reject js_error

text \<open>
  The state of the process: the field \<open>db\<close> of the one \<open>DatabaseManager\<close>, the database
  behind the driver, and two logs kept for the proofs: every statement handed to
  \<open>db.all\<close> with the handle it was handed to (oldest first), and the number of calls of
  \<open>connect\<close>. Requests are served one after the other; interleavings of concurrent
  requests are outside the model.
\<close>

record 'b state =
  db :: "handle option"
  backend :: 'b
  sent :: "(handle \<times> string \<times> jsval list) list"
  connects :: nat

definition initial_state :: "'b \<Rightarrow> 'b state" where
  "initial_state b = \<lparr>db = None, backend = b, sent = [], connects = 0\<rparr>"

section \<open>DatabaseManager\<close>

text \<open>
  \<open>connect\<close> assigns \<open>this.db\<close> as soon as the constructor returns, before the callback
  says whether the file was opened; the promise is rejected when it was not.
\<close>

definition connect :: "'b env \<Rightarrow> config \<Rightarrow> 'b state \<Rightarrow> unit promise \<times> 'b state" where
  "connect ev cfg st =
     (case open_db ev (dbPath cfg) (backend st) of
        (err, b') \<Rightarrow>
          ((case err of Some m \<Rightarrow> Reject (Error m) | None \<Rightarrow> Resolve ()),
           st\<lparr>db := Some (Handle (err = None)), backend := b',
              connects := Suc (connects st)\<rparr>))"

text \<open>
  \<open>query\<close> races a timer against the callback of \<open>db.all\<close>; the first of the two settles
  the promise and the other is then without effect. The timer wins when the statement
  takes longer than \<open>tmo\<close> milliseconds. The statement is not interrupted: the database
  afterwards is the one the driver leaves. With \<open>this.db\<close> still \<open>null\<close> the call
  \<open>this.db.all\<close> throws inside the promise's executor, which rejects the promise.
\<close>

definition query ::
  "'b env \<Rightarrow> string \<Rightarrow> jsval list \<Rightarrow> nat \<Rightarrow> 'b state \<Rightarrow> row list promise \<times> 'b state" where
  "query ev sql params tmo st =
     (case db st of
        None \<Rightarrow>
          (Reject (Error (''Cannot read properties of null (reading '' @ [CHR 0x27] @ ''all''
                          @ [CHR 0x27] @ '')'')), st)
      | Some h \<Rightarrow>
          (case db_all ev h sql params (backend st) of
             ((d, r), b') \<Rightarrow>
               ((if tmo < d then Reject (Error ''DATABASE_TIMEOUT'')
                 else (case r of Failure m \<Rightarrow> Reject (Error m) | Rows rows \<Rightarrow> Resolve rows)),
                st\<lparr>backend := b', sent := sent st @ [(h, sql, params)]\<rparr>)))"

section \<open>Responses and the error handler\<close>

text \<open>
  A route callback ends in one of two ways: it answers with \<open>res.status(c).json(v)\<close>, or
  it hands an error to \<open>next\<close>, which Express passes to \<open>errorHandler\<close>.
\<close>

datatype outcome = Respond nat jsval | Next js_error

abbreviation sq :: string where "sq \<equiv> [CHR 0x27]"
abbreviation a_tilde :: string where "a_tilde \<equiv> [CHR 0xC3, CHR 0xA3]"
abbreviation a_acute :: string where "a_acute \<equiv> [CHR 0xC3, CHR 0xA1]"
abbreviation i_acute :: string where "i_acute \<equiv> [CHR 0xC3, CHR 0xAD]"
abbreviation o_acute :: string where "o_acute \<equiv> [CHR 0xC3, CHR 0xB3]"

definition errorHandler :: "'b env \<Rightarrow> config \<Rightarrow> js_error \<Rightarrow> nat \<times> jsval" where
  "errorHandler ev cfg err =
     (let errorResponse =
            [(''status'', JStr ''error''), (''message'', JStr ''Erro interno do servidor'')];
          errorResponse' =
            (if nodeEnv cfg = ''development''
             then errorResponse @ [(''detail'', JStr (message err)),
                                   (''stack'', JStr (stack_of ev (message err)))]
             else errorResponse)
      in if message err = ''DATABASE_TIMEOUT''
         then (408, JObj [(''status'', JStr ''error''),
                          (''message'', JStr ''A consulta excedeu o tempo limite de 3 minutos'')])
         else (500, JObj errorResponse'))"

section \<open>The connection middleware\<close>

text \<open>
  \<open>checkDatabaseConnection\<close> connects only while \<open>dbManager.db\<close> is \<open>null\<close>. Its result is
  the error it hands to \<open>next\<close>, if any.
\<close>

definition checkDatabaseConnection ::
  "'b env \<Rightarrow> config \<Rightarrow> 'b state \<Rightarrow> js_error option \<times> 'b state" where
  "checkDatabaseConnection ev cfg st =
     (case db st of
        None \<Rightarrow>
          (case connect ev cfg st of
             (Resolve u, st') \<Rightarrow> (None, st')
           | (Reject e, st') \<Rightarrow>
               (Some (Error (''Falha na conex'' @ a_tilde @ ''o com o banco de dados'')), st'))
      | Some h \<Rightarrow> (None, st))"

section \<open>The route callbacks\<close>

text \<open>
  The \<open>catch\<close> block that the callbacks of read, read by id, pagination, update, delete and
  add-column all carry, word for word.
\<close>

definition catch_no_such_table :: "js_error \<Rightarrow> outcome" where
  "catch_no_such_table error =
     (if str_includes (message error) ''no such table''
      then Next (Error (str_replace (message error) ''no such table:''
                          (''N'' @ a_tilde @ ''o existe a tabela:'')))
      else Next (Error (message error)))"

text \<open>\<open>GET /api/read/:table\<close>\<close>

definition api_read :: "'b env \<Rightarrow> config \<Rightarrow> string \<Rightarrow> 'b state \<Rightarrow> outcome \<times> 'b state" where
  "api_read ev cfg table st =
     (case query ev (''SELECT * FROM '' @ table @ '' LIMIT 10'') [] (timeout cfg) st of
        (Resolve resultado, st') \<Rightarrow>
          (Respond 200 (JObj [(''status'', JStr ''success''),
                              (''data'', JArr (map JObj resultado))]), st')
      | (Reject error, st') \<Rightarrow> (catch_no_such_table error, st'))"

text \<open>\<open>GET /api/read/:table/:id\<close>\<close>

definition api_read_id ::
  "'b env \<Rightarrow> config \<Rightarrow> string \<Rightarrow> string \<Rightarrow> 'b state \<Rightarrow> outcome \<times> 'b state" where
  "api_read_id ev cfg table ident st =
     (if table = [] \<and> ident = []
      then (Respond 400 (JObj [(''message'', JStr ''Bad request. Missing ID parameter'')]), st)
      else
        (case query ev (''SELECT * FROM '' @ table @ '' WHERE id = ?'') [JStr ident]
                (timeout cfg) st of
           (Resolve row, st') \<Rightarrow>
             (case row of
                [] \<Rightarrow> (Respond 404 (JObj [(''message'', JStr ''User not found'')]), st')
              | r # rest \<Rightarrow> (Respond 200 (JObj r), st'))
         | (Reject error, st') \<Rightarrow> (catch_no_such_table error, st')))"

text \<open>
  \<open>GET /api/pagination/:table?page=&limit=\<close>. A query parameter that is absent is
  \<open>undefined\<close>; \<open>parseInt\<close> converts its argument to a string first.
\<close>

definition api_pagination ::
  "'b env \<Rightarrow> config \<Rightarrow> string \<Rightarrow> jsval \<Rightarrow> jsval \<Rightarrow> 'b state \<Rightarrow> outcome \<times> 'b state" where
  "api_pagination ev cfg table page limit st =
     (if \<not> truthy page \<or> \<not> truthy limit
      then (Respond 400
              (JObj [(''message'', JStr ''Bad request. Missing page or limit parameter'')]), st)
      else
        (let pageNumber = parseInt (to_str page);
             limitNumber = parseInt (to_str limit);
             offset = num_mul (num_sub pageNumber (Num 1)) limitNumber
         in case query ev (''SELECT * FROM '' @ table @ '' LIMIT ? OFFSET ?'')
                   [JNum limitNumber, JNum offset] (timeout cfg) st of
              (Resolve rows, st') \<Rightarrow>
                (if length rows > 0 then (Respond 200 (JArr (map JObj rows)), st')
                 else (Respond 200
                         (JObj [(''message'',
                                 JStr (''A tabela '' @ sq @ table @ sq @ '' est'' @ a_acute
                                       @ '' vazia.''))]), st'))
            | (Reject error, st') \<Rightarrow> (catch_no_such_table error, st')))"

text \<open>\<open>PATCH /api/update/:table/:id\<close>\<close>

definition api_update ::
  "'b env \<Rightarrow> config \<Rightarrow> string \<Rightarrow> string \<Rightarrow> (string \<times> jsval) list \<Rightarrow> 'b state
   \<Rightarrow> outcome \<times> 'b state" where
  "api_update ev cfg table ident body st =
     (let keys = (if length body > 0 then map (\<lambda>(key, val). key @ '' = ?'') body else []);
          values = (if length body > 0 then map snd body else []);
          sql = ''UPDATE '' @ table @ '' SET '' @ join keys @ '' WHERE id = ?'';
          params = values @ [JStr ident]
      in case query ev sql params (timeout cfg) st of
           (Resolve rows, st') \<Rightarrow>
             (Respond 200 (JObj [(''message'', JStr ''Cadastro atualizado com sucesso!''),
                                 (''changes'', get_prop module_this ''changes'')]), st')
         | (Reject error, st') \<Rightarrow> (catch_no_such_table error, st'))"

text \<open>\<open>DELETE /api/delete/:table/:id\<close>\<close>

definition api_delete ::
  "'b env \<Rightarrow> config \<Rightarrow> string \<Rightarrow> string \<Rightarrow> 'b state \<Rightarrow> outcome \<times> 'b state" where
  "api_delete ev cfg table ident st =
     (let checkSql = ''SELECT * FROM '' @ table @ '' WHERE id = ?'';
          deleteSql = ''DELETE FROM '' @ table @ '' WHERE id = ?'';
          checkParams = [JStr ident]
      in case query ev checkSql checkParams (timeout cfg) st of
           (Resolve result, st') \<Rightarrow>
             (if length result = 0
              then (Respond 404
                      (JObj [(''message'',
                              JStr (''O id '' @ sq @ ident @ sq @ '' n'' @ a_tilde
                                    @ ''o encontrado na tabela '' @ sq @ table @ sq @ ''.''))]),
                    st')
              else
                (case query ev deleteSql checkParams (timeout cfg) st' of
                   (Resolve rows, st'') \<Rightarrow>
                     (Respond 200
                        (JObj [(''message'',
                                JStr (''ID '' @ sq @ ident @ sq @ '' exclu'' @ i_acute
                                      @ ''do com sucesso!''))]), st'')
                 | (Reject error, st'') \<Rightarrow> (catch_no_such_table error, st'')))
         | (Reject error, st') \<Rightarrow> (catch_no_such_table error, st'))"

text \<open>\<open>POST /api/create/:table\<close>\<close>

definition api_create ::
  "'b env \<Rightarrow> config \<Rightarrow> string \<Rightarrow> (string \<times> jsval) list \<Rightarrow> 'b state \<Rightarrow> outcome \<times> 'b state" where
  "api_create ev cfg table body st =
     (let keys = (if length body > 0 then map fst body else []);
          values = (if length body > 0 then map snd body else []);
          i = (if length body > 0 then map (\<lambda>kv. ''?'') body else []);
          sql = ''INSERT INTO '' @ table @ '' ('' @ join keys @ '') VALUES ('' @ join i @ '')'';
          params = values
      in case query ev sql params (timeout cfg) st of
           (Resolve rows, st') \<Rightarrow>
             (Respond 200 (JObj [(''message'', JStr ''Cadastro criado com sucesso!''),
                                 (''id'', get_prop module_this ''lastID'')]), st')
         | (Reject error, st') \<Rightarrow>
             ((if str_includes (message error) ''UNIQUE constraint failed''
               then Next (Error (''O email j'' @ a_acute @ '' existe''))
               else Next (Error (message error))), st'))"

text \<open>\<open>POST /api/add-table\<close>\<close>

definition api_add_table ::
  "'b env \<Rightarrow> config \<Rightarrow> (string \<times> jsval) list \<Rightarrow> 'b state \<Rightarrow> outcome \<times> 'b state" where
  "api_add_table ev cfg body st =
     (let tableName = get_prop body ''tableName'';
          columns = get_prop body ''columns''
      in if \<not> truthy tableName \<or> \<not> truthy columns
         then (Respond 400
                 (JObj [(''error'',
                         JStr (''Nome da tabela e colunas s'' @ a_tilde @ ''o obrigat''
                               @ o_acute @ ''rios.''))]), st)
         else
           (let createTableSQL =
                  ''CREATE TABLE IF NOT EXISTS '' @ to_str tableName @ '' ('' @ to_str columns
                  @ '');''
            in case query ev createTableSQL [] (timeout cfg) st of
                 (Resolve rows, st') \<Rightarrow>
                   (Respond 200
                      (JObj [(''message'',
                              JStr (''Tabela '' @ sq @ to_str tableName @ sq
                                    @ '' criada com sucesso!''))]), st')
               | (Reject error, st') \<Rightarrow>
                   (Next (Error (''Erro ao criar a tabela: '' @ message error)), st')))"

text \<open>\<open>POST /api/add-column/:table\<close>\<close>

definition api_add_column ::
  "'b env \<Rightarrow> config \<Rightarrow> string \<Rightarrow> (string \<times> jsval) list \<Rightarrow> 'b state \<Rightarrow> outcome \<times> 'b state" where
  "api_add_column ev cfg table body st =
     (let columnName = get_prop body ''columnName'';
          columnType = get_prop body ''columnType'';
          sql = ''ALTER TABLE '' @ table @ '' ADD COLUMN '' @ to_str columnName @ '' ''
                @ to_str columnType @ '';''
      in case query ev sql [] (timeout cfg) st of
           (Resolve rows, st') \<Rightarrow>
             (Respond 200
                (JObj [(''message'',
                        JStr (''Coluna '' @ sq @ to_str columnName @ sq
                              @ '' criada com sucesso!''))]), st')
         | (Reject error, st') \<Rightarrow> (catch_no_such_table error, st'))"

section \<open>Routing\<close>

text \<open>
  A request of the data interface, after Express has matched the route, decoded the route
  and query parameters and parsed the JSON body into the list of its entries. Anything
  that matches no route is \<open>Unmatched\<close>. The landing page \<open>/home\<close> serves a file and is
  not part of the data interface.
\<close>

datatype request =
    ReadTable string
  | ReadById string string
  | Pagination string jsval jsval
  | Update string string "(string \<times> jsval) list"
  | Delete string string
  | Create string "(string \<times> jsval) list"
  | AddTable "(string \<times> jsval) list"
  | AddColumn string "(string \<times> jsval) list"
  | Unmatched

fun callback :: "'b env \<Rightarrow> config \<Rightarrow> request \<Rightarrow> 'b state \<Rightarrow> outcome \<times> 'b state" where
  "callback ev cfg (ReadTable t) st = api_read ev cfg t st"
| "callback ev cfg (ReadById t i) st = api_read_id ev cfg t i st"
| "callback ev cfg (Pagination t p l) st = api_pagination ev cfg t p l st"
| "callback ev cfg (Update t i b) st = api_update ev cfg t i b st"
| "callback ev cfg (Delete t i) st = api_delete ev cfg t i st"
| "callback ev cfg (Create t b) st = api_create ev cfg t b st"
| "callback ev cfg (AddTable b) st = api_add_table ev cfg b st"
| "callback ev cfg (AddColumn t b) st = api_add_column ev cfg t b st"
| "callback ev cfg Unmatched st =
     (Respond 404 (JObj [(''status'', JStr ''error''),
                         (''message'', JStr (''Endpoint n'' @ a_tilde @ ''o encontrado''))]), st)"

text \<open>
  One request through the application: every route of the data interface runs
  \<open>checkDatabaseConnection\<close> first, and an error handed to \<open>next\<close> ends in \<open>errorHandler\<close>.
  The result is the status code and the value given to \<open>res.json\<close>.
\<close>

definition serve :: "'b env \<Rightarrow> config \<Rightarrow> request \<Rightarrow> 'b state \<Rightarrow> (nat \<times> jsval) \<times> 'b state" where
  "serve ev cfg req st =
     (if req = Unmatched
      then (case callback ev cfg req st of
              (Respond c v, st') \<Rightarrow> ((c, v), st')
            | (Next e, st') \<Rightarrow> (errorHandler ev cfg e, st'))
      else
        (case checkDatabaseConnection ev cfg st of
           (Some e, st') \<Rightarrow> (errorHandler ev cfg e, st')
         | (None, st') \<Rightarrow>
             (case callback ev cfg req st' of
                (Respond c v, st'') \<Rightarrow> ((c, v), st'')
              | (Next e, st'') \<Rightarrow> (errorHandler ev cfg e, st''))))"

text \<open>What the client decodes from the body of the response.\<close>

definition on_wire :: "nat \<times> jsval \<Rightarrow> nat \<times> jsval option" where
  "on_wire r = (fst r, stringify (snd r))"

text \<open>Requests served one after the other, with the responses in order.\<close>

fun serve_all ::
  "'b env \<Rightarrow> config \<Rightarrow> request list \<Rightarrow> 'b state \<Rightarrow> (nat \<times> jsval) list \<times> 'b state" where
  "serve_all ev cfg [] st = ([], st)"
| "serve_all ev cfg (r # rs) st =
     (case serve ev cfg r st of
        (resp, st') \<Rightarrow> (case serve_all ev cfg rs st' of (resps, st'') \<Rightarrow> (resp # resps, st'')))"

section \<open>Concrete environments\<close>

text \<open>
  Environments used to run the model on concrete requests. In \<open>const_env\<close> the file opens
  or not as \<open>op\<close> says, and every statement takes \<open>d\<close> milliseconds and ends with the
  reply \<open>r\<close>. In \<open>table_env\<close> every statement is answered at once as a
  \<open>LIMIT ? OFFSET ?\<close> selection from the rows \<open>tbl\<close> of one table, in storage order.
\<close>

definition const_env :: "string option \<Rightarrow> nat \<Rightarrow> reply \<Rightarrow> unit env" where
  "const_env op d r =
     \<lparr>open_db = (\<lambda>path b. (op, b)),
      db_all = (\<lambda>h sql params b. ((d, r), b)),
      stack_of = (\<lambda>m. ''Error: '' @ m)\<rparr>"

definition limit_offset :: "row list \<Rightarrow> jsval list \<Rightarrow> reply" where
  "limit_offset tbl params =
     (case params of
        [JNum (Num l), JNum (Num off)] \<Rightarrow> Rows (take (nat l) (drop (nat off) tbl))
      | _ \<Rightarrow> Failure ''SQLITE_RANGE: column index out of range'')"

definition table_env :: "row list \<Rightarrow> unit env" where
  "table_env tbl =
     \<lparr>open_db = (\<lambda>path b. (None, b)),
      db_all = (\<lambda>h sql params b. ((0, limit_offset tbl params), b)),
      stack_of = (\<lambda>m. ''Error: '' @ m)\<rparr>"

definition numbered_rows :: "nat \<Rightarrow> row list" where
  "numbered_rows n = map (\<lambda>k. [(''id'', JNum (Num (int k)))]) [1..<Suc n]"

text \<open>The message SQLite gives for a statement whose \<open>SET\<close> list is empty.\<close>

definition syntax_error :: string where
  "syntax_error = ''SQLITE_ERROR: near '' @ [CHR 0x22] @ ''WHERE'' @ [CHR 0x22] @ '': syntax error''"

definition production_config :: config where
  "production_config = default_config\<lparr>nodeEnv := ''production''\<rparr>"

definition connected_state :: "'b \<Rightarrow> 'b state" where
  "connected_state b = \<lparr>db = Some (Handle True), backend = b, sent = [], connects = 1\<rparr>"

text \<open>
  A field of the JSON object the client decodes; \<open>None\<close> when the body is not an object
  or the object has no such field.
\<close>

definition wire_field :: "jsval \<Rightarrow> string \<Rightarrow> jsval option" where
  "wire_field v k = (case stringify v of Some (JObj kvs) \<Rightarrow> map_of kvs k | _ \<Rightarrow> None)"

text \<open>
  The bookkeeping of the connection: \<open>connect\<close> has been called once exactly when
  \<open>dbManager.db\<close> holds a handle, and never otherwise.
\<close>

definition connected_once :: "'b state \<Rightarrow> bool" where
  "connected_once st = (case db st of None \<Rightarrow> connects st = 0 | Some h \<Rightarrow> connects st = 1)"

section \<open>Properties of \<open>query\<close>\<close>

lemma query_resolve:
  "db st = Some h \<Longrightarrow> db_all ev h sql ps (backend st) = ((d, Rows rows), b') \<Longrightarrow> d \<le> tmo \<Longrightarrow>
   query ev sql ps tmo st
     = (Resolve rows, st\<lparr>backend := b', sent := sent st @ [(h, sql, ps)]\<rparr>)"
  by (simp add: query_def)

lemma query_failure:
  "db st = Some h \<Longrightarrow> db_all ev h sql ps (backend st) = ((d, Failure m), b') \<Longrightarrow> d \<le> tmo \<Longrightarrow>
   query ev sql ps tmo st
     = (Reject (Error m), st\<lparr>backend := b', sent := sent st @ [(h, sql, ps)]\<rparr>)"
  by (simp add: query_def)

lemma query_timeout:
  "db st = Some h \<Longrightarrow> db_all ev h sql ps (backend st) = ((d, r), b') \<Longrightarrow> tmo < d \<Longrightarrow>
   query ev sql ps tmo st
     = (Reject (Error ''DATABASE_TIMEOUT''),
        st\<lparr>backend := b', sent := sent st @ [(h, sql, ps)]\<rparr>)"
  by (simp add: query_def)

lemma query_sent:
  "db st = Some h \<Longrightarrow> sent (snd (query ev sql ps tmo st)) = sent st @ [(h, sql, ps)]"
  by (simp add: query_def split: prod.splits)

lemma query_db: "db (snd (query ev sql ps tmo st)) = db st"
  by (simp add: query_def split: prod.splits option.splits)

lemma query_connects: "connects (snd (query ev sql ps tmo st)) = connects st"
  by (simp add: query_def split: prod.splits option.splits)

lemma check_connection_sent:
  "checkDatabaseConnection ev cfg st = (r, st1) \<Longrightarrow> sent st1 = sent st"
  by (auto simp add: checkDatabaseConnection_def connect_def
        split: option.splits prod.splits promise.splits)

lemma check_connection_initial:
  "checkDatabaseConnection (const_env None d r) cfg (initial_state ()) = (None, connected_state ())"
  "checkDatabaseConnection (table_env tbl) cfg (initial_state ()) = (None, connected_state ())"
  by (simp_all add: checkDatabaseConnection_def connect_def initial_state_def connected_state_def
        const_env_def table_env_def)

section \<open>Errors on their way to the client\<close>

text \<open>
  Replacing the first occurrence of a pattern either leaves the string as it is or
  changes its length by the difference between replacement and pattern.
\<close>

lemma str_replace_same_or_longer:
  "str_replace s pat rep = s
   \<or> (length (str_replace s pat rep) + length pat = length s + length rep
      \<and> length pat \<le> length s)"
proof (induction s)
  case Nil
  then show ?case by simp
next
  case (Cons c cs)
  have pre: "starts_with xs p \<Longrightarrow> length p \<le> length xs" for xs p :: string
    by (induction xs p rule: starts_with.induct) auto
  show ?case
  proof (cases "starts_with (c # cs) pat")
    case True
    with pre [OF True] show ?thesis by simp
  next
    case False
    with Cons.IH show ?thesis by auto
  qed
qed

text \<open>
  The shared \<open>catch\<close> block never turns another message into \<open>DATABASE_TIMEOUT\<close>, and
  the error handler answers every other message with 500.
\<close>

lemma localized_is_not_timeout:
  assumes "m \<noteq> ''DATABASE_TIMEOUT''"
  shows "str_replace m ''no such table:'' (''N'' @ a_tilde @ ''o existe a tabela:'')
           \<noteq> ''DATABASE_TIMEOUT''"
proof
  let ?r = "str_replace m ''no such table:'' (''N'' @ a_tilde @ ''o existe a tabela:'')"
  assume eq: "?r = ''DATABASE_TIMEOUT''"
  then have len: "length ?r = 16"
    by simp
  from str_replace_same_or_longer
    [of m "''no such table:''" "''N'' @ a_tilde @ ''o existe a tabela:''"]
  show False
  proof
    assume "?r = m"
    with eq assms show False by simp
  next
    assume "length ?r + length ''no such table:''
              = length m + length (''N'' @ a_tilde @ ''o existe a tabela:'')
          \<and> length ''no such table:'' \<le> length m"
    then have "length ?r + 14 = length m + 21" and "14 \<le> length m"
      by simp_all
    with len show False by linarith
  qed
qed

lemma catch_is_not_timeout:
  "m \<noteq> ''DATABASE_TIMEOUT'' \<Longrightarrow>
   \<exists>m'. catch_no_such_table (Error m) = Next (Error m') \<and> m' \<noteq> ''DATABASE_TIMEOUT''"
  using localized_is_not_timeout by (simp add: catch_no_such_table_def)

lemma errorHandler_500:
  "m \<noteq> ''DATABASE_TIMEOUT'' \<Longrightarrow> fst (errorHandler ev cfg (Error m)) = 500"
  by (simp add: errorHandler_def Let_def)

lemma check_connection_error:
  "checkDatabaseConnection ev cfg st = (Some e, st1) \<Longrightarrow>
   e = Error (''Falha na conex'' @ a_tilde @ ''o com o banco de dados'')"
  by (auto simp add: checkDatabaseConnection_def split: option.splits prod.splits promise.splits)

lemma check_connection_unopenable:
  "checkDatabaseConnection (const_env (Some m) d r) cfg (initial_state ())
     = (Some (Error (''Falha na conex'' @ a_tilde @ ''o com o banco de dados'')),
        \<lparr>db = Some (Handle False), backend = (), sent = [], connects = 1\<rparr>)"
  by (simp add: checkDatabaseConnection_def connect_def initial_state_def const_env_def)

lemma callback_pagination_not_400:
  "ps \<noteq> [] \<Longrightarrow> ls \<noteq> [] \<Longrightarrow>
   api_pagination ev cfg table (JStr ps) (JStr ls) st = (Respond c v, st') \<Longrightarrow> c = 200"
  by (auto simp add: api_pagination_def Let_def catch_no_such_table_def
        split: prod.splits promise.splits if_splits)

section \<open>Read by id\<close>

text \<open>
  Claim C10. When the connection middleware lets a read-by-id request through and its
  \<open>SELECT\<close> comes back in time with more than one row, the response is HTTP 200 and its
  body is exactly the first row of the result; the rows after it appear nowhere in the
  response.
\<close>

theorem read_by_id_returns_first_row:
  assumes "checkDatabaseConnection ev cfg st = (None, st1)"
    and "db st1 = Some h"
    and "table \<noteq> [] \<or> ident \<noteq> []"
    and "db_all ev h (''SELECT * FROM '' @ table @ '' WHERE id = ?'') [JStr ident] (backend st1)
           = ((d, Rows (r1 # r2 # rs)), b')"
    and "d < timeout cfg"
  shows "fst (serve ev cfg (ReadById table ident) st) = (200, JObj r1)"
  using assms
  by (simp add: api_read_id_def serve_def query_def)

theorem read_by_id_returns_first_row_witness:
  "checkDatabaseConnection
      (const_env None 0 (Rows [[(''id'', JStr ''7''), (''first'', JStr ''Ana'')],
                               [(''id'', JStr ''7''), (''first'', JStr ''Bia'')]]))
      default_config (initial_state ()) = (None, connected_state ())
   \<and> db (connected_state ()) = Some (Handle True)
   \<and> db_all (const_env None 0 (Rows [[(''id'', JStr ''7''), (''first'', JStr ''Ana'')],
                                     [(''id'', JStr ''7''), (''first'', JStr ''Bia'')]]))
        (Handle True) (''SELECT * FROM '' @ ''users'' @ '' WHERE id = ?'') [JStr ''7'']
        (backend (connected_state ()))
       = ((0, Rows [[(''id'', JStr ''7''), (''first'', JStr ''Ana'')],
                    [(''id'', JStr ''7''), (''first'', JStr ''Bia'')]]), ())
   \<and> 0 < timeout default_config
   \<and> fst (serve (const_env None 0 (Rows [[(''id'', JStr ''7''), (''first'', JStr ''Ana'')],
                                         [(''id'', JStr ''7''), (''first'', JStr ''Bia'')]]))
            default_config (ReadById ''users'' ''7'') (initial_state ()))
       = (200, JObj [(''id'', JStr ''7''), (''first'', JStr ''Ana'')])"
  using read_by_id_returns_first_row
    [of "const_env None 0 (Rows [[(''id'', JStr ''7''), (''first'', JStr ''Ana'')],
                               [(''id'', JStr ''7''), (''first'', JStr ''Bia'')]])"
      default_config "initial_state ()" "connected_state ()" "Handle True" "''users''" "''7''"
      0 "[(''id'', JStr ''7''), (''first'', JStr ''Ana'')]"
      "[(''id'', JStr ''7''), (''first'', JStr ''Bia'')]" "[]" "()"]
  by (simp add: check_connection_initial)
     (simp add: connected_state_def const_env_def default_config_def)

section \<open>Delete\<close>

lemma delete_check_first:
  "db st = Some h \<Longrightarrow>
   \<exists>rest. sent (snd (api_delete ev cfg table ident st))
            = sent st @ (h, ''SELECT * FROM '' @ table @ '' WHERE id = ?'', [JStr ident]) # rest"
  by (auto simp add: api_delete_def Let_def query_def split: prod.splits reply.splits)

text \<open>
  Claim C7. A delete request that the connection middleware lets through sends the
  existence check \<open>SELECT * FROM <table> WHERE id = ?\<close> first. When that check comes
  back in time with no row, the response is 404 with the not-found message, the check is
  the only statement that was sent (no \<open>DELETE\<close> follows it), and the database is the
  one the \<open>SELECT\<close> left behind.
\<close>

theorem delete_missing_row_not_found:
  assumes "checkDatabaseConnection ev cfg st = (None, st1)"
    and "db st1 = Some h"
    and "db_all ev h (''SELECT * FROM '' @ table @ '' WHERE id = ?'') [JStr ident] (backend st1)
           = ((d, Rows []), b')"
    and "d < timeout cfg"
  shows "serve ev cfg (Delete table ident) st
       = ((404, JObj [(''message'',
                       JStr (''O id '' @ sq @ ident @ sq @ '' n'' @ a_tilde
                             @ ''o encontrado na tabela '' @ sq @ table @ sq @ ''.''))]),
          st1\<lparr>backend := b',
              sent := sent st @ [(h, ''SELECT * FROM '' @ table @ '' WHERE id = ?'',
                                  [JStr ident])]\<rparr>)"
  using assms check_connection_sent [OF assms(1)]
  by (simp add: api_delete_def serve_def query_def)

theorem delete_missing_row_not_found_witness:
  "checkDatabaseConnection (const_env None 0 (Rows [])) default_config (initial_state ())
     = (None, connected_state ())
   \<and> db (connected_state ()) = Some (Handle True)
   \<and> db_all (const_env None 0 (Rows [])) (Handle True)
        (''SELECT * FROM '' @ ''users'' @ '' WHERE id = ?'') [JStr ''99'']
        (backend (connected_state ())) = ((0, Rows []), ())
   \<and> 0 < timeout default_config
   \<and> serve (const_env None 0 (Rows [])) default_config (Delete ''users'' ''99'')
        (initial_state ())
       = ((404, JObj [(''message'',
                       JStr (''O id '' @ sq @ ''99'' @ sq @ '' n'' @ a_tilde
                             @ ''o encontrado na tabela '' @ sq @ ''users'' @ sq @ ''.''))]),
          \<lparr>db = Some (Handle True), backend = (),
           sent = [(Handle True, ''SELECT * FROM users WHERE id = ?'', [JStr ''99''])],
           connects = 1\<rparr>)"
  using delete_missing_row_not_found
    [of "const_env None 0 (Rows [])" default_config "initial_state ()" "connected_state ()"
        "Handle True" "''users''" "''99''" 0 "()"]
  by (simp add: check_connection_initial)
     (simp add: connected_state_def const_env_def default_config_def initial_state_def)

section \<open>Pagination\<close>

lemma parseInt_empty: "parseInt [] = NaN"
  by (simp add: parseInt_def)

lemma parseInt_examples:
  "parseInt ''1'' = Num 1" "parseInt ''2'' = Num 2" "parseInt ''3'' = Num 3"
  "parseInt ''10'' = Num 10" "parseInt ''abc'' = NaN"
  by (simp_all add: parseInt_def is_space_def is_digit_def digits_value_def)

lemma numbered_rows_25:
  "numbered_rows 25 = map (\<lambda>k. [(''id'', JNum (Num k))])
      [1, 2, 3, 4, 5, 6, 7, 8, 9, 10, 11, 12, 13, 14, 15, 16, 17, 18, 19, 20, 21, 22, 23, 24, 25]"
  by (simp add: numbered_rows_def upt_rec)

lemma table_env_obeys:
  "db_all (table_env tbl) h sql [JNum (Num l), JNum (Num off)] b
     = ((0, Rows (take (nat l) (drop (nat off) tbl))), b)"
  by (simp add: table_env_def limit_offset_def)

text \<open>
  Claim C6. A pagination request that the connection middleware lets through and whose
  \<open>page\<close> and \<open>limit\<close> parse to integers \<open>p \<ge> 1\<close> and \<open>l \<ge> 1\<close> (within the range
  where JavaScript numbers are exact) sends exactly one statement,
  \<open>SELECT * FROM <table> LIMIT ? OFFSET ?\<close>, with the parameters \<open>l\<close> and \<open>(p - 1) * l\<close>.
  In particular, when the table holds the 25 rows \<open>tbl\<close> and the backend answers that
  statement in time as \<open>LIMIT\<close> and \<open>OFFSET\<close> prescribe, \<open>page=1&limit=10\<close> answers 200
  with the first ten rows in storage order and \<open>page=3&limit=10\<close> answers 200 with rows 21
  to 25.
\<close>

theorem pagination_limit_offset:
  assumes "checkDatabaseConnection ev cfg st = (None, st1)"
    and "db st1 = Some h"
  shows "(parseInt ps = Num p \<and> parseInt ls = Num l \<and> 1 \<le> p \<and> 1 \<le> l
          \<and> p < 2 ^ 53 \<and> l < 2 ^ 53 \<and> (p - 1) * l < 2 ^ 53 \<longrightarrow>
          sent (snd (serve ev cfg (Pagination table (JStr ps) (JStr ls)) st))
            = sent st @ [(h, ''SELECT * FROM '' @ table @ '' LIMIT ? OFFSET ?'',
                          [JNum (Num l), JNum (Num ((p - 1) * l))])])
       \<and> (length tbl = 25 \<and>
          (\<forall>l off. 0 \<le> l \<and> 0 \<le> off \<longrightarrow>
             (\<exists>d b'. d < timeout cfg \<and>
                db_all ev h (''SELECT * FROM '' @ table @ '' LIMIT ? OFFSET ?'')
                  [JNum (Num l), JNum (Num off)] (backend st1)
                  = ((d, Rows (take (nat l) (drop (nat off) tbl))), b'))) \<longrightarrow>
          fst (serve ev cfg (Pagination table (JStr ''1'') (JStr ''10'')) st)
            = (200, JArr (map JObj (take 10 tbl)))
          \<and> fst (serve ev cfg (Pagination table (JStr ''3'') (JStr ''10'')) st)
            = (200, JArr (map JObj (drop 20 tbl))))"
proof (intro conjI impI)
  assume a: "parseInt ps = Num p \<and> parseInt ls = Num l \<and> 1 \<le> p \<and> 1 \<le> l
          \<and> p < 2 ^ 53 \<and> l < 2 ^ 53 \<and> (p - 1) * l < 2 ^ 53"
  then have "ps \<noteq> []" "ls \<noteq> []"
    using parseInt_empty by auto
  moreover have "sent st1 = sent st"
    using assms(1) by (rule check_connection_sent)
  ultimately
  show "sent (snd (serve ev cfg (Pagination table (JStr ps) (JStr ls)) st))
            = sent st @ [(h, ''SELECT * FROM '' @ table @ '' LIMIT ? OFFSET ?'',
                          [JNum (Num l), JNum (Num ((p - 1) * l))])]"
    using a assms
    by (simp add: serve_def api_pagination_def Let_def query_def
          split: prod.splits reply.splits outcome.splits)
next
  assume b: "length tbl = 25 \<and>
          (\<forall>l off. 0 \<le> l \<and> 0 \<le> off \<longrightarrow>
             (\<exists>d b'. d < timeout cfg \<and>
                db_all ev h (''SELECT * FROM '' @ table @ '' LIMIT ? OFFSET ?'')
                  [JNum (Num l), JNum (Num off)] (backend st1)
                  = ((d, Rows (take (nat l) (drop (nat off) tbl))), b')))"
  then obtain d b' where first_page: "d < timeout cfg"
     "db_all ev h (''SELECT * FROM '' @ table @ '' LIMIT ? OFFSET ?'')
                  [JNum (Num 10), JNum (Num 0)] (backend st1)
                  = ((d, Rows (take (nat 10) (drop (nat 0) tbl))), b')"
    by (metis order_refl zero_le_numeral)
  from b have len: "length tbl = 25" by simp
  show "fst (serve ev cfg (Pagination table (JStr ''1'') (JStr ''10'')) st)
            = (200, JArr (map JObj (take 10 tbl)))"
    using first_page len assms
    by (simp add: serve_def api_pagination_def Let_def parseInt_examples query_def)
next
  assume b: "length tbl = 25 \<and>
          (\<forall>l off. 0 \<le> l \<and> 0 \<le> off \<longrightarrow>
             (\<exists>d b'. d < timeout cfg \<and>
                db_all ev h (''SELECT * FROM '' @ table @ '' LIMIT ? OFFSET ?'')
                  [JNum (Num l), JNum (Num off)] (backend st1)
                  = ((d, Rows (take (nat l) (drop (nat off) tbl))), b')))"
  then obtain d b' where third_page: "d < timeout cfg"
     "db_all ev h (''SELECT * FROM '' @ table @ '' LIMIT ? OFFSET ?'')
                  [JNum (Num 10), JNum (Num 20)] (backend st1)
                  = ((d, Rows (take (nat 10) (drop (nat 20) tbl))), b')"
    by (metis zero_le_numeral)
  from b have len: "length tbl = 25" by simp
  show "fst (serve ev cfg (Pagination table (JStr ''3'') (JStr ''10'')) st)
            = (200, JArr (map JObj (drop 20 tbl)))"
    using third_page len assms
    by (simp add: serve_def api_pagination_def Let_def parseInt_examples query_def)
qed

theorem pagination_limit_offset_witness:
  "checkDatabaseConnection (table_env (numbered_rows 25)) default_config (initial_state ())
     = (None, connected_state ())
   \<and> db (connected_state ()) = Some (Handle True)
   \<and> parseInt ''2'' = Num 2 \<and> parseInt ''10'' = Num 10
   \<and> length (numbered_rows 25) = 25
   \<and> sent (snd (serve (table_env (numbered_rows 25)) default_config
                  (Pagination ''users'' (JStr ''2'') (JStr ''10'')) (initial_state ())))
       = [(Handle True, ''SELECT * FROM users LIMIT ? OFFSET ?'',
           [JNum (Num 10), JNum (Num 10)])]
   \<and> fst (serve (table_env (numbered_rows 25)) default_config
            (Pagination ''users'' (JStr ''1'') (JStr ''10'')) (initial_state ()))
       = (200, JArr (map (\<lambda>k. JObj [(''id'', JNum (Num k))]) [1, 2, 3, 4, 5, 6, 7, 8, 9, 10]))
   \<and> fst (serve (table_env (numbered_rows 25)) default_config
            (Pagination ''users'' (JStr ''3'') (JStr ''10'')) (initial_state ()))
       = (200, JArr (map (\<lambda>k. JObj [(''id'', JNum (Num k))]) [21, 22, 23, 24, 25]))"
proof -
  have pass: "checkDatabaseConnection (table_env (numbered_rows 25)) default_config
                (initial_state ()) = (None, connected_state ())"
    by (rule check_connection_initial)
  have conn: "db (connected_state ()) = Some (Handle True)"
    by (simp add: connected_state_def)
  have len: "length (numbered_rows 25) = 25"
    by (simp add: numbered_rows_def)
  have obeys: "\<forall>l off. 0 \<le> l \<and> 0 \<le> off \<longrightarrow>
      (\<exists>d b'. d < timeout default_config \<and>
         db_all (table_env (numbered_rows 25)) (Handle True)
           (''SELECT * FROM '' @ ''users'' @ '' LIMIT ? OFFSET ?'')
           [JNum (Num l), JNum (Num off)] (backend (connected_state ()))
           = ((d, Rows (take (nat l) (drop (nat off) (numbered_rows 25)))), b'))"
    by (simp add: table_env_obeys default_config_def)
  from pagination_limit_offset
    [OF pass conn, of "''2''" 2 "''10''" 10 "''users''" "numbered_rows 25"]
    len obeys conn pass
  show ?thesis
    by (simp add: parseInt_examples initial_state_def numbered_rows_25)
qed

text \<open>
  Claim C5, as stated, fails: a \<open>page\<close> that is present but not a number passes the
  presence test, and the statement goes to the backend with \<open>NaN\<close> as its offset. Here
  the backend refuses the parameter and the client gets 500, not 400.
\<close>

theorem pagination_non_numeric_counterexample:
  "serve (const_env None 0 (Failure ''SQLITE_MISMATCH: datatype mismatch'')) production_config
      (Pagination ''users'' (JStr ''abc'') (JStr ''10'')) (connected_state ())
     = ((500, JObj [(''status'', JStr ''error''),
                    (''message'', JStr ''Erro interno do servidor'')]),
        \<lparr>db = Some (Handle True), backend = (),
         sent = [(Handle True, ''SELECT * FROM users LIMIT ? OFFSET ?'',
                  [JNum (Num 10), JNum NaN])], connects = 1\<rparr>)"
  by (simp add: serve_def checkDatabaseConnection_def connected_state_def const_env_def
        default_config_def production_config_def api_pagination_def query_def Let_def
        catch_no_such_table_def errorHandler_def
        parseInt_def is_space_def is_digit_def digits_value_def)

text \<open>
  Claim C5, amended. When \<open>page\<close> or \<open>limit\<close> is missing or empty, the pagination
  callback answers 400 with the missing-parameter message and leaves the state as it
  was; the whole request sends no statement to the backend, its response is that 400
  whenever the connection middleware lets the request through, and has status 500
  whenever the middleware does not. When \<open>page\<close> and \<open>limit\<close> are both present as
  non-empty strings, numeric or not, the status of the response is never 400, and once
  the connection middleware has let the request through exactly one statement, with
  the text \<open>SELECT * FROM <table> LIMIT ? OFFSET ?\<close>, is sent to the backend.
\<close>

theorem pagination_missing_parameter:
  "(page = JUndefined \<or> page = JStr [] \<or> limit = JUndefined \<or> limit = JStr [] \<longrightarrow>
      api_pagination ev cfg table page limit st
        = (Respond 400
             (JObj [(''message'', JStr ''Bad request. Missing page or limit parameter'')]), st)
      \<and> sent (snd (serve ev cfg (Pagination table page limit) st)) = sent st
      \<and> (fst (checkDatabaseConnection ev cfg st) = None \<longrightarrow>
           fst (serve ev cfg (Pagination table page limit) st)
             = (400, JObj [(''message'',
                            JStr ''Bad request. Missing page or limit parameter'')]))
      \<and> (fst (checkDatabaseConnection ev cfg st) \<noteq> None \<longrightarrow>
           fst (fst (serve ev cfg (Pagination table page limit) st)) = 500))
   \<and> (ps \<noteq> [] \<and> ls \<noteq> [] \<longrightarrow>
      fst (fst (serve ev cfg (Pagination table (JStr ps) (JStr ls)) st)) \<noteq> 400
      \<and> (checkDatabaseConnection ev cfg st = (None, st1) \<and> db st1 = Some h \<longrightarrow>
           (\<exists>params.
              sent (snd (serve ev cfg (Pagination table (JStr ps) (JStr ls)) st))
                = sent st @ [(h, ''SELECT * FROM '' @ table @ '' LIMIT ? OFFSET ?'',
                              params)])))"
proof (intro conjI impI)
  assume missing: "page = JUndefined \<or> page = JStr [] \<or> limit = JUndefined \<or> limit = JStr []"
  have rejected: "api_pagination ev cfg table page limit s
           = (Respond 400
                (JObj [(''message'', JStr ''Bad request. Missing page or limit parameter'')]), s)"
    for s :: "'a state"
    using missing by (auto simp add: api_pagination_def)
  have quiet: "sent (snd (checkDatabaseConnection ev cfg st)) = sent st"
    by (simp add: checkDatabaseConnection_def connect_def split: option.splits prod.splits)
  show "api_pagination ev cfg table page limit st
        = (Respond 400
             (JObj [(''message'', JStr ''Bad request. Missing page or limit parameter'')]), st)"
    by (rule rejected)
  show "sent (snd (serve ev cfg (Pagination table page limit) st)) = sent st"
    using quiet by (auto simp add: rejected serve_def split: prod.splits option.splits)
  show "fst (serve ev cfg (Pagination table page limit) st)
             = (400, JObj [(''message'',
                            JStr ''Bad request. Missing page or limit parameter'')])"
    if "fst (checkDatabaseConnection ev cfg st) = None"
    using that by (auto simp add: rejected serve_def split: prod.splits option.splits)
  show "fst (fst (serve ev cfg (Pagination table page limit) st)) = 500"
    if "fst (checkDatabaseConnection ev cfg st) \<noteq> None"
    using that
    by (auto simp add: serve_def errorHandler_500 dest!: check_connection_error
          split: prod.splits option.splits)
next
  assume present: "ps \<noteq> [] \<and> ls \<noteq> []"
  then have answered: "c = 200"
    if "api_pagination ev cfg table (JStr ps) (JStr ls) s = (Respond c v, s')" for c v s s'
    using that callback_pagination_not_400 by blast
  show "fst (fst (serve ev cfg (Pagination table (JStr ps) (JStr ls)) st)) \<noteq> 400"
    by (auto simp add: serve_def errorHandler_def Let_def
          dest!: answered
          split: prod.splits option.splits outcome.splits if_splits)
next
  assume present: "ps \<noteq> [] \<and> ls \<noteq> []"
    and pass: "checkDatabaseConnection ev cfg st = (None, st1) \<and> db st1 = Some h"
  from pass have "sent st1 = sent st"
    using check_connection_sent by blast
  with present pass
  show "\<exists>params.
          sent (snd (serve ev cfg (Pagination table (JStr ps) (JStr ls)) st))
            = sent st @ [(h, ''SELECT * FROM '' @ table @ '' LIMIT ? OFFSET ?'', params)]"
    by (auto simp add: serve_def api_pagination_def Let_def query_def
          split: prod.splits reply.splits outcome.splits)
qed

theorem pagination_missing_parameter_witness:
  "api_pagination (const_env None 0 (Rows [])) default_config ''users'' JUndefined (JStr ''10'')
        (initial_state ())
     = (Respond 400
          (JObj [(''message'', JStr ''Bad request. Missing page or limit parameter'')]),
        initial_state ())
   \<and> sent (snd (serve (const_env None 0 (Rows [])) default_config
                  (Pagination ''users'' JUndefined (JStr ''10'')) (initial_state ()))) = []
   \<and> fst (checkDatabaseConnection (const_env None 0 (Rows [])) default_config (initial_state ()))
       = None
   \<and> fst (serve (const_env None 0 (Rows [])) default_config
            (Pagination ''users'' JUndefined (JStr ''10'')) (initial_state ()))
       = (400, JObj [(''message'', JStr ''Bad request. Missing page or limit parameter'')])
   \<and> fst (checkDatabaseConnection
            (const_env (Some ''SQLITE_CANTOPEN: unable to open database file'') 0 (Rows []))
            default_config (initial_state ())) \<noteq> None
   \<and> fst (fst (serve
            (const_env (Some ''SQLITE_CANTOPEN: unable to open database file'') 0 (Rows []))
            default_config (Pagination ''users'' JUndefined (JStr ''10'')) (initial_state ())))
       = 500
   \<and> ''abc'' \<noteq> [] \<and> ''10'' \<noteq> []
   \<and> checkDatabaseConnection (const_env None 0 (Failure ''SQLITE_MISMATCH: datatype mismatch''))
        default_config (initial_state ()) = (None, connected_state ())
   \<and> db (connected_state ()) = Some (Handle True)
   \<and> fst (fst (serve (const_env None 0 (Failure ''SQLITE_MISMATCH: datatype mismatch''))
            default_config (Pagination ''users'' (JStr ''abc'') (JStr ''10''))
            (initial_state ()))) \<noteq> 400
   \<and> (\<exists>params.
         sent (snd (serve (const_env None 0 (Failure ''SQLITE_MISMATCH: datatype mismatch''))
                      default_config (Pagination ''users'' (JStr ''abc'') (JStr ''10''))
                      (initial_state ())))
           = [(Handle True, ''SELECT * FROM users LIMIT ? OFFSET ?'', params)])"
proof -
  have missing_ok:
    "api_pagination (const_env None 0 (Rows [])) default_config ''users'' JUndefined (JStr ''10'')
        (initial_state ())
       = (Respond 400
            (JObj [(''message'', JStr ''Bad request. Missing page or limit parameter'')]),
          initial_state ())
     \<and> sent (snd (serve (const_env None 0 (Rows [])) default_config
                  (Pagination ''users'' JUndefined (JStr ''10'')) (initial_state ()))) = []
     \<and> fst (serve (const_env None 0 (Rows [])) default_config
            (Pagination ''users'' JUndefined (JStr ''10'')) (initial_state ()))
       = (400, JObj [(''message'', JStr ''Bad request. Missing page or limit parameter'')])"
    using pagination_missing_parameter
      [of JUndefined "JStr ''10''" "const_env None 0 (Rows [])" default_config "''users''"
          "initial_state ()"]
    by (simp add: check_connection_initial) (simp add: initial_state_def)
  have missing_unopenable:
    "fst (fst (serve
            (const_env (Some ''SQLITE_CANTOPEN: unable to open database file'') 0 (Rows []))
            default_config (Pagination ''users'' JUndefined (JStr ''10'')) (initial_state ())))
       = 500"
    using pagination_missing_parameter
      [of JUndefined "JStr ''10''"
          "const_env (Some ''SQLITE_CANTOPEN: unable to open database file'') 0 (Rows [])"
          default_config "''users''" "initial_state ()"]
    by (simp add: check_connection_unopenable)
  have present:
    "fst (fst (serve (const_env None 0 (Failure ''SQLITE_MISMATCH: datatype mismatch''))
            default_config (Pagination ''users'' (JStr ''abc'') (JStr ''10''))
            (initial_state ()))) \<noteq> 400
     \<and> (\<exists>params.
         sent (snd (serve (const_env None 0 (Failure ''SQLITE_MISMATCH: datatype mismatch''))
                      default_config (Pagination ''users'' (JStr ''abc'') (JStr ''10''))
                      (initial_state ())))
           = [(Handle True, ''SELECT * FROM users LIMIT ? OFFSET ?'', params)])"
    using pagination_missing_parameter
      [of _ _ "const_env None 0 (Failure ''SQLITE_MISMATCH: datatype mismatch'')"
          default_config "''users''" "initial_state ()" "''abc''" "''10''"
          "connected_state ()" "Handle True"]
    by (simp add: check_connection_initial) (simp add: connected_state_def initial_state_def)
  from missing_ok missing_unopenable present show ?thesis
    by (simp add: check_connection_initial check_connection_unopenable connected_state_def)
qed

section \<open>Update\<close>

text \<open>
  Claim C3, as stated, fails: the update callback has no test that rejects an empty
  body. The statement \<open>UPDATE users SET  WHERE id = ?\<close> reaches the backend, whose syntax
  error comes back to the client as 500, not 400.
\<close>

theorem update_empty_body_counterexample:
  "serve (const_env None 0 (Failure (''SQLITE_ERROR: near '' @ [CHR 0x22] @ ''WHERE''
                                     @ [CHR 0x22] @ '': syntax error'')))
      production_config (Update ''users'' ''1'' []) (connected_state ())
     = ((500, JObj [(''status'', JStr ''error''),
                    (''message'', JStr ''Erro interno do servidor'')]),
        \<lparr>db = Some (Handle True), backend = (),
         sent = [(Handle True, ''UPDATE users SET  WHERE id = ?'', [JStr ''1''])],
         connects = 1\<rparr>)"
  by (simp add: serve_def checkDatabaseConnection_def connected_state_def const_env_def
        default_config_def production_config_def api_update_def query_def Let_def
        errorHandler_def catch_no_such_table_def)

text \<open>
  Claim C3, amended. The status of the response to an update request with an empty body
  is never 400, and the callback does not reject the request: once the connection
  middleware has let it through, exactly one statement,
  \<open>UPDATE <table> SET  WHERE id = ?\<close> with the id as its only parameter, is sent to the
  backend; and when the backend answers that statement before the timeout with an error
  whose message is not \<open>DATABASE_TIMEOUT\<close>, the status of the response is 500.
\<close>

theorem update_empty_body_forwarded:
  "fst (fst (serve ev cfg (Update table ident []) st)) \<noteq> 400
   \<and> (checkDatabaseConnection ev cfg st = (None, st1) \<and> db st1 = Some h \<longrightarrow>
        sent (snd (serve ev cfg (Update table ident []) st))
          = sent st @ [(h, ''UPDATE '' @ table @ '' SET  WHERE id = ?'', [JStr ident])])
   \<and> (checkDatabaseConnection ev cfg st = (None, st1) \<and> db st1 = Some h
        \<and> db_all ev h (''UPDATE '' @ table @ '' SET  WHERE id = ?'') [JStr ident] (backend st1)
            = ((d, Failure m), b')
        \<and> d < timeout cfg \<and> m \<noteq> ''DATABASE_TIMEOUT'' \<longrightarrow>
        fst (fst (serve ev cfg (Update table ident []) st)) = 500)"
proof (intro conjI impI)
  show "fst (fst (serve ev cfg (Update table ident []) st)) \<noteq> 400"
    by (auto simp add: serve_def api_update_def Let_def catch_no_such_table_def errorHandler_def
          split: prod.splits option.splits promise.splits)
next
  assume a: "checkDatabaseConnection ev cfg st = (None, st1) \<and> db st1 = Some h"
  then have "sent st1 = sent st"
    using check_connection_sent by blast
  with a show "sent (snd (serve ev cfg (Update table ident []) st))
          = sent st @ [(h, ''UPDATE '' @ table @ '' SET  WHERE id = ?'', [JStr ident])]"
    by (auto simp add: serve_def api_update_def Let_def query_def catch_no_such_table_def
          split: prod.splits reply.splits)
next
  assume a: "checkDatabaseConnection ev cfg st = (None, st1) \<and> db st1 = Some h
        \<and> db_all ev h (''UPDATE '' @ table @ '' SET  WHERE id = ?'') [JStr ident] (backend st1)
            = ((d, Failure m), b')
        \<and> d < timeout cfg \<and> m \<noteq> ''DATABASE_TIMEOUT''"
  then obtain m' where m': "catch_no_such_table (Error m) = Next (Error m')"
      "m' \<noteq> ''DATABASE_TIMEOUT''"
    using catch_is_not_timeout by blast
  have "fst (api_update ev cfg table ident [] st1) = Next (Error m')"
    using a m'(1) by (simp add: api_update_def Let_def query_def)
  with a m'(2) show "fst (fst (serve ev cfg (Update table ident []) st)) = 500"
    by (auto simp add: serve_def errorHandler_500 split: prod.splits)
qed

theorem update_empty_body_forwarded_witness:
  "fst (fst (serve (const_env None 0 (Failure syntax_error)) default_config
               (Update ''users'' ''1'' []) (initial_state ()))) \<noteq> 400
   \<and> checkDatabaseConnection (const_env None 0 (Failure syntax_error)) default_config
        (initial_state ()) = (None, connected_state ())
   \<and> db (connected_state ()) = Some (Handle True)
   \<and> db_all (const_env None 0 (Failure syntax_error)) (Handle True)
        (''UPDATE '' @ ''users'' @ '' SET  WHERE id = ?'') [JStr ''1'']
        (backend (connected_state ()))
       = ((0, Failure syntax_error), ())
   \<and> 0 < timeout default_config
   \<and> syntax_error \<noteq> ''DATABASE_TIMEOUT''
   \<and> sent (snd (serve (const_env None 0 (Failure syntax_error)) default_config
                  (Update ''users'' ''1'' []) (initial_state ())))
       = [(Handle True, ''UPDATE users SET  WHERE id = ?'', [JStr ''1''])]
   \<and> fst (fst (serve (const_env None 0 (Failure syntax_error)) default_config
                  (Update ''users'' ''1'' []) (initial_state ()))) = 500"
  using update_empty_body_forwarded
    [of "const_env None 0 (Failure syntax_error)" default_config
        "''users''" "''1''" "initial_state ()" "connected_state ()" "Handle True" 0
        syntax_error "()"]
  by (simp add: check_connection_initial)
     (simp add: connected_state_def initial_state_def const_env_def default_config_def
        syntax_error_def)

section \<open>The shape of the responses\<close>

lemma errorHandler_shape:
  "errorHandler ev cfg e = (c, v) \<Longrightarrow>
     (c = 408 \<or> c = 500)
   \<and> (\<exists>kvs. v = JObj kvs)
   \<and> wire_field v ''status'' = Some (JStr ''error'')
   \<and> (\<exists>m. wire_field v ''message'' = Some (JStr m))
   \<and> (nodeEnv cfg \<noteq> ''development'' \<longrightarrow>
        wire_field v ''detail'' = None \<and> wire_field v ''stack'' = None)"
  by (auto simp add: errorHandler_def Let_def wire_field_def List.map_filter_simps
        split: if_splits)

lemma callback_shape:
  "callback ev cfg req st = (Respond c v, st') \<Longrightarrow>
     (c = 200 \<or> c = 400 \<or> c = 404)
   \<and> ((\<exists>kvs. v = JObj kvs)
      \<or> (\<exists>t p l rows. req = Pagination t p l \<and> c = 200 \<and> rows \<noteq> []
            \<and> v = JArr (map JObj rows)))
   \<and> (req = Unmatched \<longrightarrow>
        wire_field v ''status'' = Some (JStr ''error'')
        \<and> (\<exists>m. wire_field v ''message'' = Some (JStr m))
        \<and> wire_field v ''detail'' = None \<and> wire_field v ''stack'' = None)
   \<and> ((\<exists>t. req = ReadTable t) \<longrightarrow>
        c = 200 \<and> wire_field v ''status'' = Some (JStr ''success'')
        \<and> (\<exists>rows. wire_field v ''data'' = Some (JArr rows)))"
proof (cases req)
  case (ReadTable t)
  assume "callback ev cfg req st = (Respond c v, st')"
  with ReadTable show ?thesis
    by (auto simp add: api_read_def catch_no_such_table_def wire_field_def
          List.map_filter_simps split: prod.splits promise.splits if_splits)
next
  case (ReadById t i)
  assume "callback ev cfg req st = (Respond c v, st')"
  with ReadById show ?thesis
    by (auto simp add: api_read_id_def catch_no_such_table_def
          split: prod.splits promise.splits if_splits list.splits)
next
  case (Pagination t p l)
  assume "callback ev cfg req st = (Respond c v, st')"
  with Pagination show ?thesis
    by (auto simp add: api_pagination_def Let_def catch_no_such_table_def
          split: prod.splits promise.splits if_splits)
next
  case (Update t i b)
  assume "callback ev cfg req st = (Respond c v, st')"
  with Update show ?thesis
    by (auto simp add: api_update_def Let_def catch_no_such_table_def
          split: prod.splits promise.splits if_splits)
next
  case (Delete t i)
  assume "callback ev cfg req st = (Respond c v, st')"
  with Delete show ?thesis
    by (auto simp add: api_delete_def Let_def catch_no_such_table_def
          split: prod.splits promise.splits if_splits)
next
  case (Create t b)
  assume "callback ev cfg req st = (Respond c v, st')"
  with Create show ?thesis
    by (auto simp add: api_create_def Let_def
          split: prod.splits promise.splits if_splits)
next
  case (AddTable b)
  assume "callback ev cfg req st = (Respond c v, st')"
  with AddTable show ?thesis
    by (auto simp add: api_add_table_def Let_def
          split: prod.splits promise.splits if_splits)
next
  case (AddColumn t b)
  assume "callback ev cfg req st = (Respond c v, st')"
  with AddColumn show ?thesis
    by (auto simp add: api_add_column_def Let_def catch_no_such_table_def
          split: prod.splits promise.splits if_splits)
next
  case Unmatched
  assume "callback ev cfg req st = (Respond c v, st')"
  with Unmatched show ?thesis
    by (auto simp add: wire_field_def List.map_filter_simps)
qed

text \<open>
  Claim C9, as stated, fails: a page that has rows is sent as a bare JSON array, which is
  not an object and carries no status marker.
\<close>

theorem pagination_body_counterexample:
  "on_wire (fst (serve (const_env None 0 (Rows [[(''id'', JNum (Num 1))]])) default_config
      (Pagination ''users'' (JStr ''1'') (JStr ''10'')) (connected_state ())))
     = (200, Some (JArr [JObj [(''id'', JNum (Num 1))]]))"
  by (simp add: serve_def checkDatabaseConnection_def connected_state_def const_env_def
        default_config_def api_pagination_def query_def Let_def on_wire_def
        List.map_filter_simps parseInt_examples)

text \<open>
  Claim C9, amended. Every response of the data interface is a JSON object, except the
  200 answer of pagination for a page that has rows, which is the array of those rows.
  Every response with status 408 or 500, and the answer to an unmatched route, carries
  the status marker \<open>error\<close> and a message, and carries neither \<open>detail\<close> nor \<open>stack\<close>
  unless \<open>nodeEnv\<close> is \<open>development\<close>. The 200 answer of the list route carries the
  status marker \<open>success\<close> next to its \<open>data\<close> array.
\<close>

theorem response_envelope:
  assumes "serve ev cfg req st = ((c, v), st')"
  shows "((\<exists>kvs. stringify v = Some (JObj kvs))
          \<or> (\<exists>t p l rows. req = Pagination t p l \<and> c = 200 \<and> rows \<noteq> []
                \<and> v = JArr (map JObj rows)))
       \<and> (c = 408 \<or> c = 500 \<or> req = Unmatched \<longrightarrow>
            wire_field v ''status'' = Some (JStr ''error'')
            \<and> (\<exists>m. wire_field v ''message'' = Some (JStr m))
            \<and> (nodeEnv cfg \<noteq> ''development'' \<longrightarrow>
                 wire_field v ''detail'' = None \<and> wire_field v ''stack'' = None))
       \<and> ((\<exists>t. req = ReadTable t) \<and> c = 200 \<longrightarrow>
            wire_field v ''status'' = Some (JStr ''success'')
            \<and> (\<exists>rows. wire_field v ''data'' = Some (JArr rows)))"
proof -
  consider (handled) e where "errorHandler ev cfg e = (c, v)"
    | (answered) st0 where "callback ev cfg req st0 = (Respond c v, st')"
    using assms
    by (auto simp add: serve_def split: if_splits prod.splits option.splits outcome.splits)
  then show ?thesis
  proof cases
    case handled
    from errorHandler_shape [OF handled(1)] show ?thesis
      by auto
  next
    case answered
    from callback_shape [OF answered] show ?thesis
      by auto
  qed
qed

theorem response_envelope_witness:
  "serve (const_env None 0 (Failure ''SQLITE_ERROR: no such column: id'')) production_config
       (ReadById ''users'' ''7'') (initial_state ())
     = ((500, JObj [(''status'', JStr ''error''),
                    (''message'', JStr ''Erro interno do servidor'')]),
        \<lparr>db = Some (Handle True), backend = (),
         sent = [(Handle True, ''SELECT * FROM users WHERE id = ?'', [JStr ''7''])],
         connects = 1\<rparr>)
   \<and> nodeEnv production_config \<noteq> ''development''
   \<and> stringify (JObj [(''status'', JStr ''error''),
                       (''message'', JStr ''Erro interno do servidor'')])
       = Some (JObj [(''status'', JStr ''error''),
                     (''message'', JStr ''Erro interno do servidor'')])
   \<and> wire_field (JObj [(''status'', JStr ''error''),
                        (''message'', JStr ''Erro interno do servidor'')]) ''status''
       = Some (JStr ''error'')
   \<and> wire_field (JObj [(''status'', JStr ''error''),
                        (''message'', JStr ''Erro interno do servidor'')]) ''detail''
       = None"
proof -
  have run: "serve (const_env None 0 (Failure ''SQLITE_ERROR: no such column: id''))
       production_config (ReadById ''users'' ''7'') (initial_state ())
     = ((500, JObj [(''status'', JStr ''error''),
                    (''message'', JStr ''Erro interno do servidor'')]),
        \<lparr>db = Some (Handle True), backend = (),
         sent = [(Handle True, ''SELECT * FROM users WHERE id = ?'', [JStr ''7''])],
         connects = 1\<rparr>)"
    by (simp add: serve_def checkDatabaseConnection_def connect_def initial_state_def
          const_env_def production_config_def default_config_def api_read_id_def query_def
          catch_no_such_table_def errorHandler_def)
  have prod: "nodeEnv production_config \<noteq> ''development''"
    by (simp add: production_config_def default_config_def)
  from response_envelope [OF run] prod run show ?thesis
    by (simp add: List.map_filter_simps)
qed

section \<open>A table that does not exist\<close>

text \<open>
  The six callbacks that share the \<open>catch\<close> block rewrite the message of the backend:
  when every statement fails in time with a message that contains \<open>no such table\<close>, the
  error handed on carries the message with \<open>no such table:\<close> replaced.
\<close>

lemma siblings_localize:
  assumes "db st = Some h"
    and "\<forall>sql ps b. \<exists>d b'. d \<le> timeout cfg \<and> db_all ev h sql ps b = ((d, Failure m), b')"
    and "str_includes m ''no such table''"
    and "req = ReadTable t \<or> req = Update t i b \<or> req = Delete t i \<or> req = AddColumn t b
         \<or> (req = ReadById t i \<and> (t \<noteq> [] \<or> i \<noteq> []))
         \<or> (req = Pagination t p l \<and> truthy p \<and> truthy l)"
  shows "fst (callback ev cfg req st)
       = Next (Error (str_replace m ''no such table:'' (''N'' @ a_tilde @ ''o existe a tabela:'')))"
proof -
  have q: "r = Reject (Error m)" if "query ev sql ps (timeout cfg) st = (r, st')"
    for sql ps r st'
  proof -
    from assms(2) obtain d b' where "d \<le> timeout cfg"
      "db_all ev h sql ps (backend st) = ((d, Failure m), b')" by blast
    with that assms(1) show ?thesis
      by (simp add: query_def)
  qed
  show ?thesis
    using assms(3,4)
    by (auto dest!: q simp add: api_read_def api_update_def api_delete_def
          api_add_column_def api_read_id_def api_pagination_def Let_def catch_no_such_table_def
          split: prod.splits promise.splits)
qed

text \<open>The callback of create hands on any message but that of a uniqueness violation as it is.\<close>

lemma create_passes_error_through:
  assumes "db st = Some h"
    and "db_all ev h (''INSERT INTO '' @ t @ '' ('' @ join (map fst b) @ '') VALUES (''
                      @ join (map (\<lambda>kv. ''?'') b) @ '')'') (map snd b) (backend st)
           = ((d, Failure m), b')"
    and "d \<le> timeout cfg"
    and "\<not> str_includes m ''UNIQUE constraint failed''"
  shows "fst (api_create ev cfg t b st) = Next (Error m)"
  using assms by (cases b) (simp_all add: api_create_def Let_def query_def)

text \<open>
  Claim C1 does not hold of the code: the \<open>catch\<close> block of create lacks the rewriting
  that its six siblings have. With no table \<open>ghost\<close>, a create request ends with the
  backend's own message \<open>SQLITE_ERROR: no such table: ghost\<close> as the detail of the
  response, where the list request on the same table ends with the rewritten one.
\<close>

theorem create_missing_table_raw_error:
  "fst (serve (const_env None 0 (Failure ''SQLITE_ERROR: no such table: ghost'')) default_config
          (Create ''ghost'' [(''first'', JStr ''Ana'')]) (initial_state ()))
     = (500, JObj [(''status'', JStr ''error''), (''message'', JStr ''Erro interno do servidor''),
                   (''detail'', JStr ''SQLITE_ERROR: no such table: ghost''),
                   (''stack'', JStr ''Error: SQLITE_ERROR: no such table: ghost'')])
   \<and> fst (serve (const_env None 0 (Failure ''SQLITE_ERROR: no such table: ghost''))
            default_config (ReadTable ''ghost'') (initial_state ()))
     = (500, JObj [(''status'', JStr ''error''), (''message'', JStr ''Erro interno do servidor''),
                   (''detail'',
                    JStr (''SQLITE_ERROR: N'' @ a_tilde @ ''o existe a tabela: ghost'')),
                   (''stack'',
                    JStr (''Error: SQLITE_ERROR: N'' @ a_tilde @ ''o existe a tabela: ghost''))])"
  by (simp add: serve_def checkDatabaseConnection_def connect_def initial_state_def const_env_def
        default_config_def api_create_def api_read_def query_def Let_def errorHandler_def
        catch_no_such_table_def)

section \<open>Timeouts\<close>

lemma catch_timeout:
  "catch_no_such_table (Error ''DATABASE_TIMEOUT'') = Next (Error ''DATABASE_TIMEOUT'')"
  by (simp add: catch_no_such_table_def)

lemma errorHandler_timeout:
  "errorHandler ev cfg (Error ''DATABASE_TIMEOUT'')
     = (408, JObj [(''status'', JStr ''error''),
                   (''message'', JStr ''A consulta excedeu o tempo limite de 3 minutos'')])"
  by (simp add: errorHandler_def)

lemma query_slow:
  "db st = Some h \<Longrightarrow> \<forall>sql ps b. tmo < fst (fst (db_all ev h sql ps b)) \<Longrightarrow>
   query ev sql ps tmo st = (r, st') \<Longrightarrow> r = Reject (Error ''DATABASE_TIMEOUT'')"
proof -
  assume conn: "db st = Some h"
    and slow: "\<forall>sql ps b. tmo < fst (fst (db_all ev h sql ps b))"
    and run: "query ev sql ps tmo st = (r, st')"
  from slow have "tmo < fst (fst (db_all ev h sql ps (backend st)))"
    by blast
  with conn run show ?thesis
    by (auto simp add: query_def split: prod.splits)
qed

text \<open>
  When every statement takes longer than the configured timeout, each of these seven
  operations answers 408 with the timeout message.
\<close>

lemma timeout_gives_408:
  assumes "db st = Some h"
    and "\<forall>sql ps b. timeout cfg < fst (fst (db_all ev h sql ps b))"
    and "req = ReadTable t \<or> req = Update t i b \<or> req = Delete t i \<or> req = Create t b
         \<or> req = AddColumn t b \<or> (req = ReadById t i \<and> (t \<noteq> [] \<or> i \<noteq> []))
         \<or> (req = Pagination t p l \<and> truthy p \<and> truthy l)"
  shows "fst (serve ev cfg req st)
       = (408, JObj [(''status'', JStr ''error''),
                     (''message'', JStr ''A consulta excedeu o tempo limite de 3 minutos'')])"
proof -
  have q: "\<And>sql ps r st'. query ev sql ps (timeout cfg) st = (r, st')
              \<Longrightarrow> r = Reject (Error ''DATABASE_TIMEOUT'')"
    using assms(1,2) query_slow by blast
  have "fst (callback ev cfg req st) = Next (Error ''DATABASE_TIMEOUT'')"
    using assms(3)
    by (auto dest!: q simp add: api_read_def api_update_def api_delete_def api_create_def
          api_add_column_def api_read_id_def api_pagination_def Let_def catch_timeout
          split: prod.splits promise.splits)
  then show ?thesis
    using assms(1,3)
    by (auto simp add: serve_def checkDatabaseConnection_def errorHandler_timeout
          split: prod.splits outcome.splits)
qed

text \<open>
  Claim C2 does not hold of the code for the operation that creates a table: its
  \<open>catch\<close> block puts \<open>Erro ao criar a tabela: \<close> in front of every message, so the
  error handler no longer recognises \<open>DATABASE_TIMEOUT\<close>. With the default timeout of
  180000 ms and a statement that takes 180001 ms, the create-table request ends in 500,
  where the list request ends in 408.
\<close>

theorem add_table_timeout_is_500:
  "fst (serve (const_env None 180001 (Rows [])) default_config
          (AddTable [(''tableName'', JStr ''Users''),
                     (''columns'', JStr ''id INTEGER PRIMARY KEY'')])
          (initial_state ()))
     = (500, JObj [(''status'', JStr ''error''), (''message'', JStr ''Erro interno do servidor''),
                   (''detail'', JStr ''Erro ao criar a tabela: DATABASE_TIMEOUT''),
                   (''stack'', JStr ''Error: Erro ao criar a tabela: DATABASE_TIMEOUT'')])
   \<and> fst (serve (const_env None 180001 (Rows [])) default_config
            (ReadTable ''Users'') (initial_state ()))
     = (408, JObj [(''status'', JStr ''error''),
                   (''message'', JStr ''A consulta excedeu o tempo limite de 3 minutos'')])"
  by (simp add: serve_def checkDatabaseConnection_def connect_def initial_state_def const_env_def
        default_config_def api_add_table_def api_read_def query_def Let_def errorHandler_def
        catch_no_such_table_def get_prop_def)

section \<open>Create\<close>

text \<open>Whenever create answers at all, the \<open>id\<close> of its acknowledgment is \<open>undefined\<close>.\<close>

lemma create_ack_id_undefined:
  "api_create ev cfg t b st = (Respond c v, st') \<Longrightarrow>
   c = 200 \<and> v = JObj [(''message'', JStr ''Cadastro criado com sucesso!''), (''id'', JUndefined)]"
  by (auto simp add: api_create_def Let_def get_prop_def module_this_def
        split: prod.splits promise.splits if_splits)

text \<open>
  Claim C4 does not hold of the code: the acknowledgment reads \<open>this.lastID\<close> where
  \<open>this\<close> is the module's empty export object, so the \<open>id\<close> is \<open>undefined\<close> and is left
  out of the JSON the client receives. No identifier is returned to read the row back
  with.
\<close>

theorem create_acknowledgment_has_no_id:
  "fst (serve (const_env None 0 (Rows [])) default_config
          (Create ''users'' [(''first'', JStr ''Ana'')]) (initial_state ()))
     = (200, JObj [(''message'', JStr ''Cadastro criado com sucesso!''), (''id'', JUndefined)])
   \<and> on_wire (fst (serve (const_env None 0 (Rows [])) default_config
          (Create ''users'' [(''first'', JStr ''Ana'')]) (initial_state ())))
     = (200, Some (JObj [(''message'', JStr ''Cadastro criado com sucesso!'')]))"
  by (simp add: serve_def checkDatabaseConnection_def connect_def initial_state_def const_env_def
        default_config_def api_create_def query_def Let_def get_prop_def module_this_def
        on_wire_def List.map_filter_simps)

section \<open>The connection\<close>

lemma check_connection_noop:
  "db st = Some h \<Longrightarrow> checkDatabaseConnection ev cfg st = (None, st)"
  by (simp add: checkDatabaseConnection_def)

lemma query_keeps_connection:
  "query ev sql ps tmo st = (r, st') \<Longrightarrow> db st' = db st \<and> connects st' = connects st"
  using query_db [of ev sql ps tmo st] query_connects [of ev sql ps tmo st] by simp

lemma callback_keeps_connection:
  "callback ev cfg req st = (out, st') \<Longrightarrow> db st' = db st \<and> connects st' = connects st"
  by (cases req)
     (auto simp add: api_read_def api_read_id_def api_pagination_def api_update_def
        api_delete_def api_create_def api_add_table_def api_add_column_def Let_def
        dest!: query_keeps_connection
        split: prod.splits promise.splits if_splits list.splits)

lemma serve_connected_once:
  "connected_once st \<Longrightarrow> connected_once (snd (serve ev cfg req st))"
  by (auto simp add: connected_once_def serve_def checkDatabaseConnection_def connect_def
        dest!: callback_keeps_connection
        split: prod.splits option.splits outcome.splits promise.splits if_splits)

lemma serve_all_Cons_state:
  "snd (serve_all ev cfg (r # rs) st) = snd (serve_all ev cfg rs (snd (serve ev cfg r st)))"
  by (simp split: prod.splits)

lemma serve_all_connected_once:
  "connected_once st \<Longrightarrow> connected_once (snd (serve_all ev cfg reqs st))"
proof (induction reqs arbitrary: st)
  case Nil
  then show ?case by simp
next
  case (Cons r rs)
  from Cons.prems have "connected_once (snd (serve ev cfg r st))"
    by (rule serve_connected_once)
  from Cons.IH [OF this] show ?case
    by (simp only: serve_all_Cons_state)
qed

text \<open>However many requests are served, \<open>connect\<close> is called at most once.\<close>

lemma at_most_one_connect:
  "connects (snd (serve_all ev cfg reqs (initial_state b))) \<le> 1"
proof -
  have "connected_once (initial_state b)"
    by (simp add: connected_once_def initial_state_def)
  then have "connected_once (snd (serve_all ev cfg reqs (initial_state b)))"
    by (rule serve_all_connected_once)
  then show ?thesis
    by (simp add: connected_once_def split: option.splits)
qed

text \<open>
  Claim C8 does not hold of the code in its first half: \<open>connect\<close> stores the handle
  before it knows whether the file was opened, so after a failed attempt the middleware
  finds a handle and lets the next request through. Of two list requests against a file
  that cannot be opened, the first ends in the connection failure, and the second hands
  its \<open>SELECT\<close> to a handle that was never established. \<open>connect\<close> itself was called once.
\<close>

theorem query_on_failed_connection:
  "serve_all (const_env (Some ''SQLITE_CANTOPEN: unable to open database file'') 0
                (Failure ''SQLITE_MISUSE: Database is closed''))
      default_config [ReadTable ''users'', ReadTable ''users''] (initial_state ())
     = ([(500, JObj [(''status'', JStr ''error''),
                     (''message'', JStr ''Erro interno do servidor''),
                     (''detail'', JStr (''Falha na conex'' @ a_tilde @ ''o com o banco de dados'')),
                     (''stack'', JStr (''Error: Falha na conex'' @ a_tilde
                                       @ ''o com o banco de dados''))]),
         (500, JObj [(''status'', JStr ''error''),
                     (''message'', JStr ''Erro interno do servidor''),
                     (''detail'', JStr ''SQLITE_MISUSE: Database is closed''),
                     (''stack'', JStr ''Error: SQLITE_MISUSE: Database is closed'')])],
        \<lparr>db = Some (Handle False), backend = (),
         sent = [(Handle False, ''SELECT * FROM users LIMIT 10'', [])], connects = 1\<rparr>)"
  by (simp add: serve_def checkDatabaseConnection_def connect_def initial_state_def const_env_def
        default_config_def api_read_def query_def Let_def errorHandler_def
        catch_no_such_table_def)

end
